theory Spec2Isabelle
  imports Complex_Main "HOL-Library.Multiset"
begin

section \<open>Social simulation: individuals, society state and round steps\<close>

text \<open>
  The embedding follows \<^verbatim>\<open>core/agent.py\<close>, \<^verbatim>\<open>core/society.py\<close> and
  \<^verbatim>\<open>core/simulation.py\<close>. Python floats are idealised as \<^typ>\<open>real\<close>: the
  theorems below are about the arithmetic the code writes down, not about IEEE rounding.
  Python integers (round numbers) are \<^typ>\<open>int\<close>. Mutation of an object is explicit
  state passing: every method takes the record and returns the updated one.
\<close>

subsection \<open>Data model (agent.py)\<close>

datatype gender = Male | Female

datatype class_level = Low | Middle | High

text \<open>
  \<open>KeyError\<close>: a dictionary lookup with an absent key. \<open>DivisionByZero\<close>: a float
  division by a zero divisor; with a Python float divisor it raises, with a numpy scalar
  it yields \<^verbatim>\<open>inf\<close>/\<^verbatim>\<open>nan\<close> and a warning. Neither outcome is a real number, so the
  model stops there with this error.
\<close>

datatype py_error = KeyError | DivisionByZero

text \<open>
  A sanction effect is a dictionary. The keys \<^verbatim>\<open>current_intensity\<close>,
  \<^verbatim>\<open>current_power_loss\<close> and \<^verbatim>\<open>current_wealth_loss\<close> are absent until
  \<^verbatim>\<open>update_sanction_effects\<close> writes them, so they are optional fields.
\<close>

record sanction_effect =
  intensity :: real
  start_round :: int
  duration :: int
  power_loss :: real
  wealth_loss :: real
  current_intensity :: "real option"
  current_power_loss :: "real option"
  current_wealth_loss :: "real option"

text \<open>
  The ideology is a Python string (\<^verbatim>\<open>'P'\<close>, \<^verbatim>\<open>'F'\<close>, \<^verbatim>\<open>'U'\<close>); it stays a
  string here because \<^verbatim>\<open>change_ideology\<close> looks its argument up in a dictionary and
  raises on any other key. The field \<^verbatim>\<open>power\<close> is called \<open>power_v\<close> and
  \<^verbatim>\<open>id\<close> is called \<open>agent_id\<close>.
\<close>

record agent =
  agent_id :: nat
  gender :: gender
  class_level :: class_level
  care_skill :: real
  competition_skill :: real
  wealth :: real
  power_v :: real
  ideology :: string
  ideology_value :: int
  sanction_effects :: "sanction_effect list"
  last_ideology_change :: int
  wealth_history :: "real list"
  power_history :: "real list"
  ideology_history :: "string list"

definition calculate_power :: "agent \<Rightarrow> real" where
  "calculate_power a =
     0.5 * wealth a + 0.25 * competition_skill a + 0.25 * care_skill a"

definition update_wealth :: "agent \<Rightarrow> real \<Rightarrow> agent" where
  "update_wealth a new_wealth =
     (let w = max 0.01 new_wealth
      in a\<lparr>wealth := w, wealth_history := wealth_history a @ [w]\<rparr>)"

definition update_power :: "agent \<Rightarrow> agent" where
  "update_power a =
     (let p = calculate_power a
      in a\<lparr>power_v := p, power_history := power_history a @ [p]\<rparr>)"

text \<open>The dictionary \<^verbatim>\<open>{'P': 1, 'F': -1, 'U': 0}\<close>.\<close>

definition ideology_values :: "string \<Rightarrow> int option" where
  "ideology_values s =
     (if s = ''P'' then Some 1
      else if s = ''F'' then Some (- 1)
      else if s = ''U'' then Some 0
      else None)"

text \<open>
  \<^verbatim>\<open>change_ideology\<close> mutates the agent and returns \<^verbatim>\<open>True\<close>/\<^verbatim>\<open>False\<close>, or
  raises the \<^verbatim>\<open>KeyError\<close> of the dictionary lookup. The result is the agent
  afterwards, paired with the returned flag or the error; when the lookup raises,
  \<^verbatim>\<open>self.ideology\<close> has already been assigned.
\<close>

definition change_ideology :: "agent \<Rightarrow> string \<Rightarrow> int \<Rightarrow> agent \<times> (py_error + bool)" where
  "change_ideology a new_ideology current_round =
     (if current_round - last_ideology_change a \<ge> 3 then
        (let a = a\<lparr>ideology := new_ideology\<rparr>
         in case ideology_values new_ideology of
              None \<Rightarrow> (a, Inl KeyError)
            | Some v \<Rightarrow>
                (a\<lparr>ideology_value := v,
                   last_ideology_change := current_round,
                   ideology_history := ideology_history a @ [new_ideology]\<rparr>, Inr True))
      else (a, Inr False))"

definition new_effect :: "real \<Rightarrow> int \<Rightarrow> sanction_effect" where
  "new_effect i current_round =
     \<lparr>intensity = i, start_round = current_round, duration = 3,
      power_loss = i * 0.08, wealth_loss = i * 0.03,
      current_intensity = None, current_power_loss = None,
      current_wealth_loss = None\<rparr>"

definition add_sanction_effect :: "agent \<Rightarrow> real \<Rightarrow> int \<Rightarrow> agent" where
  "add_sanction_effect a i current_round =
     a\<lparr>sanction_effects := sanction_effects a @ [new_effect i current_round]\<rparr>"

text \<open>
  One iteration of the loop of \<^verbatim>\<open>update_sanction_effects\<close>: \<open>None\<close> when the effect
  is dropped. \<^verbatim>\<open>0.5 ** rounds_passed\<close> with an integer exponent is \<open>powi\<close>.
\<close>

definition update_effect :: "int \<Rightarrow> sanction_effect \<Rightarrow> sanction_effect option" where
  "update_effect current_round e =
     (let rounds_passed = current_round - start_round e
      in if rounds_passed < duration e then
           (let decay_factor = (0.5::real) powi rounds_passed
            in Some (e\<lparr>current_intensity := Some (intensity e * decay_factor),
                       current_power_loss := Some (power_loss e * decay_factor),
                       current_wealth_loss := Some (wealth_loss e * decay_factor)\<rparr>))
         else None)"

definition update_sanction_effects :: "agent \<Rightarrow> int \<Rightarrow> agent" where
  "update_sanction_effects a current_round =
     a\<lparr>sanction_effects := List.map_filter (update_effect current_round) (sanction_effects a)\<rparr>"

text \<open>\<^verbatim>\<open>effect.get(key, 0)\<close>.\<close>

definition get_or_zero :: "real option \<Rightarrow> real" where
  "get_or_zero v = (case v of None \<Rightarrow> 0 | Some x \<Rightarrow> x)"

record sanction_totals =
  total_power_loss :: real
  total_wealth_loss :: real

definition get_total_sanction_effects :: "agent \<Rightarrow> sanction_totals" where
  "get_total_sanction_effects a =
     \<lparr>total_power_loss = sum_list (map (\<lambda>e. get_or_zero (current_power_loss e)) (sanction_effects a)),
      total_wealth_loss = sum_list (map (\<lambda>e. get_or_zero (current_wealth_loss e)) (sanction_effects a))\<rparr>"


subsection \<open>Society state (society.py)\<close>

record policy_levers =
  competition_reward :: real
  care_reward :: real
  tax_redistribution :: real
  attribution_bias :: real
  social_sanction :: real

text \<open>
  The statistics fields that the round steps read. \<open>core_decision_circle\<close> is the list
  \<^verbatim>\<open>sorted_agents[:circle_size]\<close> as it is when the circle is rebuilt.
\<close>

record society =
  agents :: "agent list"
  levers :: policy_levers
  current_round :: int
  core_decision_circle :: "agent list"
  social_equality :: real
  average_wealth :: real
  average_power :: real
  average_ideology :: real

text \<open>
  \<^verbatim>\<open>max(1, int(len(self.agents) * 0.05))\<close>: \<^verbatim>\<open>int\<close> truncates, and the product is
  not negative, so it is the floor.
\<close>

definition circle_size :: "nat \<Rightarrow> nat" where
  "circle_size n = max 1 (nat \<lfloor>real n * 0.05\<rfloor>)"

text \<open>
  \<^verbatim>\<open>sorted(agents, key=power, reverse=True)\<close> is a stable sort by descending power;
  \<open>sort_key\<close> on the negated key is the same stable order.
\<close>

definition sorted_by_power :: "agent list \<Rightarrow> agent list" where
  "sorted_by_power xs = sort_key (\<lambda>x. - power_v x) xs"

definition update_core_decision_circle :: "society \<Rightarrow> society" where
  "update_core_decision_circle s =
     s\<lparr>core_decision_circle :=
         take (circle_size (length (agents s))) (sorted_by_power (agents s))\<rparr>"

text \<open>The double loop of \<^verbatim>\<open>_calculate_gini_coefficient\<close> over \<^verbatim>\<open>range(n)\<close>.\<close>

definition total_diff :: "real list \<Rightarrow> real" where
  "total_diff wealths =
     (\<Sum>i\<leftarrow>[0..<length wealths]. \<Sum>j\<leftarrow>[0..<length wealths]. \<bar>wealths ! i - wealths ! j\<bar>)"

definition mean :: "real list \<Rightarrow> real" where
  "mean xs = sum_list xs / real (length xs)"

definition calculate_gini_coefficient :: "real list \<Rightarrow> real" where
  "calculate_gini_coefficient wealths =
     (if wealths = [] \<or> length wealths < 2 then 0
      else
        (let n = real (length wealths); mean_wealth = mean wealths
         in if mean_wealth = 0 then 0
            else min 1 (total_diff wealths / (2 * n * n * mean_wealth))))"

text \<open>
  \<^verbatim>\<open>_calculate_social_equality\<close>, as a function of the list of the agents' wealths (the
  list is empty exactly when there are no agents).
\<close>

definition equality_index :: "real list \<Rightarrow> real" where
  "equality_index wealths =
     (if wealths = [] then 0
      else max 0 (min 1 (1 - calculate_gini_coefficient wealths)))"

definition calculate_social_equality :: "society \<Rightarrow> society" where
  "calculate_social_equality s =
     s\<lparr>social_equality := equality_index (map wealth (agents s))\<rparr>"

subsection \<open>Round steps (simulation.py)\<close>

text \<open>
  The collecting loop of \<^verbatim>\<open>_execute_tax_redistribution\<close>: the agents after paying,
  and the running total of the tax.
\<close>

fun collect_tax :: "real \<Rightarrow> real \<Rightarrow> agent list \<Rightarrow> real \<Rightarrow> py_error + (agent list \<times> real)" where
  "collect_tax avg tax_rate [] total_tax = Inr ([], total_tax)"
| "collect_tax avg tax_rate (a # as) total_tax =
     (if wealth a > avg * 0.5 then
        (if avg = 0 then Inl DivisionByZero
         else
           (let tax_multiplier = max 0 (wealth a / avg - 0.5);
                tax_amount = wealth a * tax_rate * tax_multiplier
            in case collect_tax avg tax_rate as (total_tax + tax_amount) of
                 Inl e \<Rightarrow> Inl e
               | Inr (as', t) \<Rightarrow> Inr (a\<lparr>wealth := wealth a - tax_amount\<rparr> # as', t)))
      else
        (case collect_tax avg tax_rate as total_tax of
           Inl e \<Rightarrow> Inl e
         | Inr (as', t) \<Rightarrow> Inr (a # as', t)))"

definition execute_tax_redistribution :: "society \<Rightarrow> py_error + society" where
  "execute_tax_redistribution s =
     (let tax_rate = tax_redistribution (levers s)
      in if tax_rate \<le> 0 then Inr s
         else
           (case collect_tax (average_wealth s) tax_rate (agents s) 0 of
              Inl e \<Rightarrow> Inl e
            | Inr (as', total_tax) \<Rightarrow>
                (if total_tax > 0 then
                   (let redistribution_per_person = total_tax / real (length as')
                    in Inr (s\<lparr>agents :=
                         map (\<lambda>a. a\<lparr>wealth := wealth a + redistribution_per_person\<rparr>) as'\<rparr>))
                 else Inr (s\<lparr>agents := as'\<rparr>))))"

definition total_wealth :: "society \<Rightarrow> real" where
  "total_wealth s = sum_list (map wealth (agents s))"

text \<open>The loop body of \<^verbatim>\<open>_apply_attribution_bias\<close> and the loop.\<close>

definition bias_agent :: "real \<Rightarrow> real \<Rightarrow> agent \<Rightarrow> agent" where
  "bias_agent bias avg_power a =
     (let relative_power_advantage = (power_v a - avg_power) / max 0.001 avg_power;
          bias_factor =
            (if gender a = Male
             then (1 + 0.2 * bias) * (1 + 0.1 * relative_power_advantage)
             else (1 - 0.3 * bias) * (1 + 0.1 * relative_power_advantage))
      in a\<lparr>power_v := max 0 (power_v a * bias_factor)\<rparr>)"

definition apply_attribution_bias :: "society \<Rightarrow> society" where
  "apply_attribution_bias s =
     s\<lparr>agents := map (bias_agent (attribution_bias (levers s)) (average_power s)) (agents s)\<rparr>"

text \<open>
  The loop body of \<^verbatim>\<open>_update_wealth_power\<close>; \<open>base_growth_rate\<close> is
  \<^verbatim>\<open>config.get('base_growth_rate', 0.01)\<close>.
\<close>

definition update_agent_wealth_power :: "real \<Rightarrow> int \<Rightarrow> agent \<Rightarrow> agent" where
  "update_agent_wealth_power base_growth_rate cur_round a =
     (let skill_bonus = 0.02 * (competition_skill a + care_skill a) / 2;
          growth_rate = base_growth_rate + skill_bonus;
          new_wealth = wealth a * (1 + growth_rate);
          sanction = get_total_sanction_effects a;
          new_wealth = new_wealth - total_wealth_loss sanction;
          new_wealth = (if new_wealth > 0.9 then new_wealth * 0.98 else new_wealth);
          a = update_wealth a new_wealth;
          a = update_power a;
          a = a\<lparr>power_v := max 0 (power_v a - total_power_loss sanction)\<rparr>
      in update_sanction_effects a cur_round)"

definition update_wealth_power :: "real option \<Rightarrow> society \<Rightarrow> society" where
  "update_wealth_power cfg_base_growth_rate s =
     (let base_growth_rate = (case cfg_base_growth_rate of None \<Rightarrow> 0.01 | Some r \<Rightarrow> r)
      in s\<lparr>agents := map (update_agent_wealth_power base_growth_rate (current_round s)) (agents s)\<rparr>)"

subsection \<open>Ideology conversion (simulation.py)\<close>

text \<open>
  \<^verbatim>\<open>random.random()\<close> reads the process-wide generator. The values it will return are
  an input of the model: \<open>rnd k\<close> is the value of the \<open>k\<close>-th call, and every function
  that draws takes the number of calls made so far and returns it updated.

  The call \<^verbatim>\<open>agent.change_ideology(new, round)\<close> in the loop ignores the returned
  flag; an exception ends the loop.
\<close>

definition switch_ideology :: "agent \<Rightarrow> string \<Rightarrow> int \<Rightarrow> nat \<Rightarrow> py_error + (agent \<times> nat)" where
  "switch_ideology a new cur_round k =
     (case change_ideology a new cur_round of
        (a', Inl e) \<Rightarrow> Inl e
      | (a', Inr changed) \<Rightarrow> Inr (a', k))"

text \<open>
  The three blocks of the loop body of \<^verbatim>\<open>_execute_ideology_conversion\<close>, last
  first; each falls through to the next one exactly where the Python does not
  \<^verbatim>\<open>continue\<close>. In the third block the draw is made only when
  \<^verbatim>\<open>personal_benefit < -0.1\<close> (the \<^verbatim>\<open>and\<close> short-circuits).
\<close>

definition dissonance_conversion ::
  "(nat \<Rightarrow> real) \<Rightarrow> int \<Rightarrow> real \<Rightarrow> agent \<Rightarrow> nat \<Rightarrow> py_error + (agent \<times> nat)" where
  "dissonance_conversion rnd cur_round personal_benefit a k =
     (if ideology a \<in> set [''P'', ''F''] then
        (if personal_benefit < - 0.1 then
           (if rnd k < 0.1 then
              switch_ideology a (if ideology a = ''P'' then ''F'' else ''P'') cur_round (k + 1)
            else Inr (a, k + 1))
         else Inr (a, k))
      else Inr (a, k))"

definition rational_conversion ::
  "(nat \<Rightarrow> real) \<Rightarrow> int \<Rightarrow> real \<Rightarrow> agent \<Rightarrow> nat \<Rightarrow> py_error + (agent \<times> nat)" where
  "rational_conversion rnd cur_round personal_benefit a k =
     (if ideology a = ''U'' then
        (if gender a = Male \<and> class_level a \<in> set [Middle, High] then
           (if rnd k < 0.2 then switch_ideology a ''P'' cur_round (k + 1)
            else dissonance_conversion rnd cur_round personal_benefit a (k + 1))
         else if gender a = Female then
           (if rnd k < 0.2 then switch_ideology a ''F'' cur_round (k + 1)
            else dissonance_conversion rnd cur_round personal_benefit a (k + 1))
         else Inr (a, k))
      else dissonance_conversion rnd cur_round personal_benefit a k)"

definition frustration_conversion ::
  "(nat \<Rightarrow> real) \<Rightarrow> int \<Rightarrow> real \<Rightarrow> agent \<Rightarrow> nat \<Rightarrow> py_error + (agent \<times> nat)" where
  "frustration_conversion rnd cur_round personal_benefit a k =
     (if ideology a \<in> set [''P'', ''F''] \<and> personal_benefit < - 0.2 then
        (if rnd k < 0.3 then switch_ideology a ''U'' cur_round (k + 1)
         else rational_conversion rnd cur_round personal_benefit a (k + 1))
      else rational_conversion rnd cur_round personal_benefit a k)"

definition convert_agent ::
  "(nat \<Rightarrow> real) \<Rightarrow> int \<Rightarrow> agent \<Rightarrow> nat \<Rightarrow> py_error + (agent \<times> nat)" where
  "convert_agent rnd cur_round a k =
     (if cur_round - last_ideology_change a < 3 then Inr (a, k)
      else
        (let personal_benefit = (wealth a - 0.5) + (power_v a - 0.5)
         in frustration_conversion rnd cur_round personal_benefit a k))"

fun convert_agents ::
  "(nat \<Rightarrow> real) \<Rightarrow> int \<Rightarrow> agent list \<Rightarrow> nat \<Rightarrow> py_error + (agent list \<times> nat)" where
  "convert_agents rnd cur_round [] k = Inr ([], k)"
| "convert_agents rnd cur_round (a # as) k =
     (case convert_agent rnd cur_round a k of
        Inl e \<Rightarrow> Inl e
      | Inr (a', k') \<Rightarrow>
          (case convert_agents rnd cur_round as k' of
             Inl e \<Rightarrow> Inl e
           | Inr (as', k'') \<Rightarrow> Inr (a' # as', k'')))"

definition execute_ideology_conversion ::
  "(nat \<Rightarrow> real) \<Rightarrow> society \<Rightarrow> nat \<Rightarrow> py_error + (society \<times> nat)" where
  "execute_ideology_conversion rnd s k =
     (case convert_agents rnd (current_round s) (agents s) k of
        Inl e \<Rightarrow> Inl e
      | Inr (as', k') \<Rightarrow> Inr (s\<lparr>agents := as'\<rparr>, k'))"

subsection \<open>Initialisation (agent.py, society.py, simulation.py)\<close>

text \<open>
  The configuration dictionary; the options read with \<^verbatim>\<open>config.get(key, default)\<close>
  are optional fields. \<open>random_seed\<close> is the option the configuration panel
  writes; no function of the core reads it.
\<close>

record config =
  total_population :: int
  male_care_skill_mean :: real
  male_competition_skill_mean :: real
  female_care_skill_mean :: real
  female_competition_skill_mean :: real
  skill_std_dev :: real
  cfg_competition_reward :: "real option"
  cfg_care_reward :: "real option"
  cfg_tax_redistribution :: "real option"
  cfg_attribution_bias :: "real option"
  cfg_social_sanction :: "real option"
  base_growth_rate :: "real option"
  random_seed :: int

text \<open>
  The two process-wide generators (\<^verbatim>\<open>random\<close> and \<^verbatim>\<open>np.random\<close>). Their state
  is not set anywhere in the source, so what they will deliver is an input of the model,
  next to the configuration: \<open>py_randbelow k n\<close> is what the \<open>k\<close>-th call of Python's
  generator returns when it is \<^verbatim>\<open>_randbelow(n)\<close>, \<open>np_normal k\<close> the standard-normal
  variate and \<open>np_index k\<close> the index that the \<open>k\<close>-th call of numpy's generator
  delivers. \<open>py_calls\<close> and \<open>np_calls\<close> count the calls made.
\<close>

record rng =
  py_randbelow :: "nat \<Rightarrow> nat \<Rightarrow> nat"
  py_calls :: nat
  np_normal :: "nat \<Rightarrow> real"
  np_index :: "nat \<Rightarrow> nat"
  np_calls :: nat

text \<open>\<^verbatim>\<open>np.random.normal(loc, scale)\<close> is \<open>loc + scale * z\<close> for the next variate \<open>z\<close>.\<close>

definition normal :: "rng \<Rightarrow> real \<Rightarrow> real \<Rightarrow> real \<times> rng" where
  "normal g loc scale =
     (loc + scale * np_normal g (np_calls g), g\<lparr>np_calls := np_calls g + 1\<rparr>)"

text \<open>\<^verbatim>\<open>np.random.choice(xs)\<close> on a list that is not empty.\<close>

definition choice :: "rng \<Rightarrow> 'a list \<Rightarrow> 'a \<times> rng" where
  "choice g xs =
     (xs ! (np_index g (np_calls g) mod length xs), g\<lparr>np_calls := np_calls g + 1\<rparr>)"

text \<open>
  \<^verbatim>\<open>random.shuffle(x)\<close>:
  \<^verbatim>\<open>for i in reversed(range(1, len(x))): j = randbelow(i + 1); x[i], x[j] = x[j], x[i]\<close>.
\<close>

fun shuffle_from :: "nat \<Rightarrow> 'a list \<Rightarrow> rng \<Rightarrow> 'a list \<times> rng" where
  "shuffle_from 0 xs g = (xs, g)"
| "shuffle_from (Suc i') xs g =
     (let i = Suc i';
          j = py_randbelow g (py_calls g) (i + 1) mod (i + 1)
      in shuffle_from i' (xs[i := xs ! j, j := xs ! i]) (g\<lparr>py_calls := py_calls g + 1\<rparr>))"

definition shuffle :: "'a list \<Rightarrow> rng \<Rightarrow> 'a list \<times> rng" where
  "shuffle xs g = shuffle_from (length xs - 1) xs g"

text \<open>\<^verbatim>\<open>np.clip(x, lo, hi)\<close>.\<close>

definition clip :: "real \<Rightarrow> real \<Rightarrow> real \<Rightarrow> real" where
  "clip x lo hi = min hi (max lo x)"

text \<open>
  \<^verbatim>\<open>Agent.__init__\<close>. The identifier is a fresh \<^verbatim>\<open>uuid4\<close> in the source; here it is
  the number \<open>n\<close> handed in by the caller.
\<close>

definition init_agent :: "nat \<Rightarrow> gender \<Rightarrow> class_level \<Rightarrow> config \<Rightarrow> rng \<Rightarrow> py_error + (agent \<times> rng)" where
  "init_agent n gen cls cfg g =
     (let care_mean = (if gen = Male then male_care_skill_mean cfg else female_care_skill_mean cfg);
          comp_mean = (if gen = Male then male_competition_skill_mean cfg
                       else female_competition_skill_mean cfg);
          std_dev = skill_std_dev cfg;
          (x, g) = normal g care_mean std_dev;
          care = clip x (if gen = Male then 0.1 else 0.2) (if gen = Male then 0.9 else 1.0);
          (x, g) = normal g comp_mean std_dev;
          comp = clip x (if gen = Female then 0.1 else 0.2) (if gen = Female then 0.9 else 1.0);
          (m, sd, min_val, max_val) =
            (if cls = Low then (0.2, 0.1, 0.05, 0.35)
             else if cls = Middle then (0.5, 0.15, 0.2, 0.8)
             else (0.8, 0.1, 0.6, 1.0));
          (x, g) = normal g m sd;
          w = clip x min_val max_val;
          p = 0.5 * w + 0.25 * comp + 0.25 * care;
          (ideo, g) = choice g [''P'', ''F'', ''U'']
      in case ideology_values ideo of
           None \<Rightarrow> Inl KeyError
         | Some v \<Rightarrow>
             Inr (\<lparr>agent_id = n, gender = gen, class_level = cls, care_skill = care,
                   competition_skill = comp, wealth = w, power_v = p, ideology = ideo,
                   ideology_value = v, sanction_effects = [], last_ideology_change = 0,
                   wealth_history = [w], power_history = [p], ideology_history = [ideo]\<rparr>, g))"

text \<open>\<^verbatim>\<open>int(x)\<close> on a float truncates towards zero.\<close>

definition py_int :: "real \<Rightarrow> int" where
  "py_int x = (if x \<ge> 0 then \<lfloor>x\<rfloor> else \<lceil>x\<rceil>)"

definition gender_class_combinations :: "int \<Rightarrow> (gender \<times> class_level) list" where
  "gender_class_combinations population =
     (let low_count = py_int (real_of_int population * 0.6);
          middle_count = py_int (real_of_int population * 0.3);
          high_count = population - low_count - middle_count
      in concat (map (\<lambda>(cls, class_count).
                  (let class_male = py_int (real_of_int class_count * 0.5);
                       class_female = class_count - class_male
                   in replicate (nat class_male) (Male, cls) @
                      replicate (nat class_female) (Female, cls)))
           [(Low, low_count), (Middle, middle_count), (High, high_count)]))"

fun create_agents ::
  "nat \<Rightarrow> (gender \<times> class_level) list \<Rightarrow> config \<Rightarrow> rng \<Rightarrow> py_error + (agent list \<times> rng)" where
  "create_agents n [] cfg g = Inr ([], g)"
| "create_agents n ((gen, cls) # rest) cfg g =
     (case init_agent n gen cls cfg g of
        Inl e \<Rightarrow> Inl e
      | Inr (a, g') \<Rightarrow>
          (case create_agents (n + 1) rest cfg g' of
             Inl e \<Rightarrow> Inl e
           | Inr (as, g'') \<Rightarrow> Inr (a # as, g'')))"

definition get_default :: "'a option \<Rightarrow> 'a \<Rightarrow> 'a" where
  "get_default v d = (case v of None \<Rightarrow> d | Some x \<Rightarrow> x)"

text \<open>
  \<^verbatim>\<open>_update_basic_stats\<close> and \<^verbatim>\<open>_calculate_social_equality\<close>, the parts of
  \<^verbatim>\<open>update_statistics\<close> that write the fields of \<open>society\<close>; the per-group
  breakdowns are not part of this model.
\<close>

definition update_basic_stats :: "society \<Rightarrow> society" where
  "update_basic_stats s =
     (if agents s = [] then s
      else s\<lparr>average_wealth := mean (map wealth (agents s)),
             average_power := mean (map power_v (agents s)),
             average_ideology := mean (map (\<lambda>a. real_of_int (ideology_value a)) (agents s))\<rparr>)"

definition update_statistics :: "society \<Rightarrow> society" where
  "update_statistics s = calculate_social_equality (update_basic_stats s)"

text \<open>\<^verbatim>\<open>SocietyState.__init__\<close>.\<close>

definition new_society :: "agent list \<Rightarrow> config \<Rightarrow> society" where
  "new_society as cfg =
     update_statistics
       (update_core_decision_circle
          \<lparr>agents = as,
           levers = \<lparr>competition_reward = get_default (cfg_competition_reward cfg) 1.5,
                     care_reward = get_default (cfg_care_reward cfg) 1.0,
                     tax_redistribution = get_default (cfg_tax_redistribution cfg) 0.3,
                     attribution_bias = get_default (cfg_attribution_bias cfg) 0.6,
                     social_sanction = get_default (cfg_social_sanction cfg) 0.4\<rparr>,
           current_round = 0,
           core_decision_circle = [],
           social_equality = 0,
           average_wealth = 0,
           average_power = 0,
           average_ideology = 0\<rparr>)"

text \<open>
  \<^verbatim>\<open>SocialSimulation.__init__\<close> with \<^verbatim>\<open>_initialize_society\<close>: the society whose
  \<^verbatim>\<open>to_dict()\<close> is the first snapshot of every run, and the generators afterwards.
\<close>

definition initialize_society :: "config \<Rightarrow> rng \<Rightarrow> py_error + (society \<times> rng)" where
  "initialize_society cfg g =
     (let (combos, g) = shuffle (gender_class_combinations (total_population cfg)) g
      in case create_agents 0 combos cfg g of
           Inl e \<Rightarrow> Inl e
         | Inr (as, g') \<Rightarrow> Inr (new_society as cfg, g'))"

text \<open>
  The equality index of the first snapshot, the head of the equality-index trajectory of a
  run (\<open>None\<close> when initialisation raises).
\<close>

definition initial_equality :: "config \<Rightarrow> rng \<Rightarrow> real option" where
  "initial_equality cfg g =
     (case initialize_society cfg g of
        Inl e \<Rightarrow> None
      | Inr (s, g') \<Rightarrow> Some (social_equality s))"

text \<open>\<open>P\<close> and \<open>F\<close> exchanged, any other ideology kept.\<close>

definition opposite :: "string \<Rightarrow> string" where
  "opposite i = (if i = ''P'' then ''F'' else if i = ''F'' then ''P'' else i)"


subsection \<open>Concrete inputs\<close>

text \<open>
  A member as \<^verbatim>\<open>Agent.__init__\<close> leaves it: both skills 0.5, ideology \<open>P\<close>, the
  power computed from wealth and skills, no sanction, one entry in every history.
\<close>

definition example_member :: "nat \<Rightarrow> gender \<Rightarrow> class_level \<Rightarrow> real \<Rightarrow> agent" where
  "example_member n gen cls w =
     \<lparr>agent_id = n, gender = gen, class_level = cls, care_skill = 0.5,
      competition_skill = 0.5, wealth = w, power_v = 0.5 * w + 0.25, ideology = ''P'',
      ideology_value = 1, sanction_effects = [], last_ideology_change = 0,
      wealth_history = [w], power_history = [0.5 * w + 0.25], ideology_history = [''P'']\<rparr>"

text \<open>A configuration that leaves every optional key out, with seed 42.\<close>

definition example_config :: "int \<Rightarrow> config" where
  "example_config population =
     \<lparr>total_population = population,
      male_care_skill_mean = 0.3, male_competition_skill_mean = 0.7,
      female_care_skill_mean = 0.7, female_competition_skill_mean = 0.3,
      skill_std_dev = 0.15,
      cfg_competition_reward = None, cfg_care_reward = None, cfg_tax_redistribution = None,
      cfg_attribution_bias = None, cfg_social_sanction = None,
      base_growth_rate = None, random_seed = 42\<rparr>"

text \<open>
  Ten members in the class proportions of \<^verbatim>\<open>_initialize_society\<close> (six low, three
  middle, one high), each with a wealth inside the band of its class: the high member at
  the top of its band, the others at the bottom of theirs.
\<close>

definition unequal_population :: "agent list" where
  "unequal_population =
     [example_member 0 Male High 1,
      example_member 1 Male Middle 0.2, example_member 2 Female Middle 0.2,
      example_member 3 Female Middle 0.2,
      example_member 4 Male Low 0.05, example_member 5 Male Low 0.05,
      example_member 6 Male Low 0.05, example_member 7 Female Low 0.05,
      example_member 8 Female Low 0.05, example_member 9 Female Low 0.05]"

definition unequal_society :: society where
  "unequal_society = new_society unequal_population (example_config 10)"

text \<open>
  Two states of the generators that differ only in the standard-normal variates they will
  deliver: always 0 (every sample is the mean) or always 1 (one standard deviation above).
\<close>

definition calm_rng :: rng where
  "calm_rng = \<lparr>py_randbelow = (\<lambda>k n. 0), py_calls = 0, np_normal = (\<lambda>k. 0),
               np_index = (\<lambda>k. 0), np_calls = 0\<rparr>"

definition lucky_rng :: rng where
  "lucky_rng = \<lparr>py_randbelow = (\<lambda>k n. 0), py_calls = 0, np_normal = (\<lambda>k. 1),
               np_index = (\<lambda>k. 0), np_calls = 0\<rparr>"

text \<open>Draws of \<^verbatim>\<open>random.random()\<close>: 0.5 first, 0.05 ever after.\<close>

definition half_then_low :: "nat \<Rightarrow> real" where
  "half_then_low k = (if k = 0 then 0.5 else 0.05)"

section \<open>Properties\<close>

subsection \<open>Auxiliary facts\<close>

lemma update_new_effect:
  "update_effect r (new_effect i s) =
     (if r - s < 3
      then Some ((new_effect i s)\<lparr>current_intensity := Some (i * 0.5 powi (r - s)),
              current_power_loss := Some (i * 0.08 * 0.5 powi (r - s)),
              current_wealth_loss := Some (i * 0.03 * 0.5 powi (r - s))\<rparr>)
      else None)"
  by (simp add: update_effect_def new_effect_def Let_def)

lemma circle_size_div: "circle_size n = max 1 (n div 20)"
proof -
  have "real n * 0.05 = real n / real 20" by simp
  then have "\<lfloor>real n * 0.05\<rfloor> = int (n div 20)"
    by (simp only: floor_divide_of_nat_eq)
  then show ?thesis by (simp add: circle_size_def)
qed

lemma sorted_by_power_desc:
  "sorted_wrt (\<lambda>a b. power_v a \<ge> power_v b) (sorted_by_power xs)"
proof -
  have "sorted (map (\<lambda>x. - power_v x) (sorted_by_power xs))"
    by (simp add: sorted_by_power_def)
  then show ?thesis
    by (simp add: sorted_wrt_map)
qed

lemma mset_sorted_by_power: "mset (sorted_by_power xs) = mset xs"
  by (simp add: sorted_by_power_def)

lemma tax_amount_nonneg:
  fixes w avg rate :: real
  assumes "w > avg * 0.5" "avg \<noteq> 0" "rate > 0"
  shows "0 \<le> w * rate * max 0 (w / avg - 0.5)"
proof (cases "w \<ge> 0")
  case True
  then show ?thesis using assms by simp
next
  case False
  then have "w < 0" by simp
  with assms have "avg < 0" by simp
  with assms(1) have "w / avg < 0.5"
    by (simp add: field_simps)
  then have "max 0 (w / avg - 0.5) = 0" by simp
  then show ?thesis by simp
qed

lemma collect_tax_sum:
  assumes "collect_tax avg rate as t0 = Inr (as', t)" "rate > 0"
  shows "sum_list (map wealth as') = sum_list (map wealth as) - (t - t0) \<and>
         length as' = length as \<and> t0 \<le> t"
  using assms
proof (induction as arbitrary: t0 as' t)
  case Nil
  then show ?case by simp
next
  case (Cons a as)
  show ?case
  proof (cases "wealth a > avg * 0.5")
    case True
    with Cons.prems have nz: "avg \<noteq> 0" by (auto split: if_splits)
    define amt where "amt = wealth a * rate * max 0 (wealth a / avg - 0.5)"
    have amt0: "0 \<le> amt"
      unfolding amt_def using tax_amount_nonneg[OF True nz Cons.prems(2)] .
    from Cons.prems True nz obtain bs where
      rec: "collect_tax avg rate as (t0 + amt) = Inr (bs, t)" and
      as': "as' = a\<lparr>wealth := wealth a - amt\<rparr> # bs"
      by (auto simp: Let_def amt_def split: sum.splits)
    from Cons.IH[OF rec Cons.prems(2)] as' amt0 show ?thesis by simp
  next
    case False
    with Cons.prems obtain bs where
      rec: "collect_tax avg rate as t0 = Inr (bs, t)" and as': "as' = a # bs"
      by (auto split: sum.splits)
    from Cons.IH[OF rec Cons.prems(2)] as' show ?thesis by simp
  qed
qed

lemma collect_tax_defined:
  "avg \<noteq> 0 \<Longrightarrow> \<exists>r. collect_tax avg rate as t0 = Inr r"
proof (induction as arbitrary: t0)
  case Nil
  then show ?case by simp
next
  case (Cons a as)
  from Cons.IH[OF Cons.prems] obtain bs t where
    "collect_tax avg rate as (t0 + wealth a * rate * max 0 (wealth a / avg - 0.5)) = Inr (bs, t)"
    by (metis surj_pair)
  moreover from Cons.IH[OF Cons.prems] obtain cs u where
    "collect_tax avg rate as t0 = Inr (cs, u)"
    by (metis surj_pair)
  ultimately show ?case using Cons.prems by (simp add: Let_def)
qed

lemma sum_list_add_const:
  "(\<Sum>a\<leftarrow>xs. wealth a + c) = sum_list (map wealth xs) + real (length xs) * c"
  by (induction xs) (simp_all add: algebra_simps)

lemma tax_preserves_total:
  assumes "execute_tax_redistribution s = Inr s'"
  shows "total_wealth s' = total_wealth s"
proof (cases "tax_redistribution (levers s) \<le> 0")
  case True
  with assms show ?thesis by (simp add: execute_tax_redistribution_def)
next
  case False
  then have pos: "tax_redistribution (levers s) > 0" by simp
  from assms False obtain as' t where
    ct: "collect_tax (average_wealth s) (tax_redistribution (levers s)) (agents s) 0 = Inr (as', t)"
    by (auto simp: execute_tax_redistribution_def Let_def split: sum.splits)
  from collect_tax_sum[OF ct pos] have
    sm: "sum_list (map wealth as') = sum_list (map wealth (agents s)) - t"
    and len: "length as' = length (agents s)" and t0: "0 \<le> t" by simp_all
  show ?thesis
  proof (cases "t > 0")
    case True
    have ne: "as' \<noteq> []"
    proof
      assume "as' = []"
      with len have "agents s = []" by simp
      with ct True show False by simp
    qed
    from assms False ct True have
      "s' = s\<lparr>agents := map (\<lambda>a. a\<lparr>wealth := wealth a + t / real (length as')\<rparr>) as'\<rparr>"
      by (simp add: execute_tax_redistribution_def Let_def)
    then show ?thesis using sm ne
      by (simp add: total_wealth_def sum_list_add_const comp_def)
  next
    case nonpos: False
    with t0 have "t = 0" by simp
    with assms False ct have "s' = s\<lparr>agents := as'\<rparr>"
      by (simp add: execute_tax_redistribution_def Let_def)
    then show ?thesis using sm \<open>t = 0\<close> by (simp add: total_wealth_def)
  qed
qed

lemma tax_defined:
  "average_wealth s \<noteq> 0 \<Longrightarrow> \<exists>s'. execute_tax_redistribution s = Inr s'"
  using collect_tax_defined[of "average_wealth s" "tax_redistribution (levers s)" "agents s" 0]
  by (auto simp: execute_tax_redistribution_def Let_def split: sum.splits)




lemma length_sorted_by_power: "length (sorted_by_power xs) = length xs"
  by (simp add: sorted_by_power_def)

lemma agents_new_society: "agents (new_society as cfg) = as"
  by (simp add: new_society_def update_statistics_def calculate_social_equality_def
      update_basic_stats_def update_core_decision_circle_def)

lemma levers_new_society:
  "tax_redistribution (levers (new_society as cfg)) = get_default (cfg_tax_redistribution cfg) 0.3"
  "attribution_bias (levers (new_society as cfg)) = get_default (cfg_attribution_bias cfg) 0.6"
  by (simp_all add: new_society_def update_statistics_def calculate_social_equality_def
      update_basic_stats_def update_core_decision_circle_def)

lemma averages_new_society:
  "as \<noteq> [] \<Longrightarrow> average_wealth (new_society as cfg) = mean (map wealth as)"
  "as \<noteq> [] \<Longrightarrow> average_power (new_society as cfg) = mean (map power_v as)"
  by (simp_all add: new_society_def update_statistics_def calculate_social_equality_def
      update_basic_stats_def update_core_decision_circle_def)

lemma unequal_members: "agents unequal_society = unequal_population"
  by (simp add: unequal_society_def agents_new_society)

lemma unequal_average_wealth: "average_wealth unequal_society = 0.19"
  by (simp add: unequal_society_def averages_new_society unequal_population_def mean_def
      example_member_def)

lemma unequal_average_power: "average_power unequal_society = 0.345"
  by (simp add: unequal_society_def averages_new_society unequal_population_def mean_def
      example_member_def)

lemma unequal_tax_rate: "tax_redistribution (levers unequal_society) = 0.3"
  by (simp add: unequal_society_def levers_new_society example_config_def get_default_def)

lemma unequal_bias: "attribution_bias (levers unequal_society) = 0.6"
  by (simp add: unequal_society_def levers_new_society example_config_def get_default_def)

lemma mean_pos_of_floor:
  assumes "ws \<noteq> []" "\<forall>w\<in>set ws. 0.01 \<le> w"
  shows "0 < mean ws"
proof -
  from assms(1) obtain w ws' where ws: "ws = w # ws'"
    by (cases ws) auto
  with assms(2) have "0 < w" and "0 \<le> sum_list ws'"
    by (auto intro!: sum_list_nonneg)
  with ws have "0 < sum_list ws" by simp
  with assms(1) show ?thesis by (simp add: mean_def)
qed



lemma init_agent_power:
  "init_agent n gen cls cfg g = Inr (a, g') \<Longrightarrow> power_v a = calculate_power a"
  by (auto simp: init_agent_def Let_def calculate_power_def split: prod.splits option.splits)

lemma update_agent_power:
  "power_v (update_agent_wealth_power b r a) =
     max 0 (calculate_power (update_agent_wealth_power b r a)
            - total_power_loss (get_total_sanction_effects a))"
  by (simp add: update_agent_wealth_power_def Let_def update_sanction_effects_def
      update_power_def update_wealth_def calculate_power_def)

lemma seed_ignored:
  "initialize_society (cfg\<lparr>random_seed := k\<rparr>) g = initialize_society cfg g"
proof -
  have one: "\<And>n gen cls g.
      init_agent n gen cls (cfg\<lparr>random_seed := k\<rparr>) g = init_agent n gen cls cfg g"
    by (simp add: init_agent_def)
  have many: "\<And>n g. create_agents n cs (cfg\<lparr>random_seed := k\<rparr>) g = create_agents n cs cfg g"
    for cs
    by (induction cs) (auto simp: one split: sum.splits)
  have soc: "\<And>as. new_society as (cfg\<lparr>random_seed := k\<rparr>) = new_society as cfg"
    by (simp add: new_society_def)
  show ?thesis
    by (simp add: initialize_society_def many soc split: prod.splits sum.splits)
qed

subsection \<open>Sanction effects\<close>

text \<open>
  C4. A sanction of intensity 1.0 is added at round 5 to a member without other sanctions.
  After \<^verbatim>\<open>update_sanction_effects(r)\<close> the power loss reported by
  \<^verbatim>\<open>get_total_sanction_effects\<close> is 0.08 for \<open>r = 5\<close>, 0.04 for \<open>r = 6\<close> and 0.02 for
  \<open>r = 7\<close>; for \<open>r = 8\<close> the effect is removed and the loss is 0. The same four values
  come out when the four updates are made one after the other on the same member, as the
  rounds of a run do.
\<close>

theorem sanction_decay_schedule:
  "total_power_loss (get_total_sanction_effects (update_sanction_effects
      (add_sanction_effect (a\<lparr>sanction_effects := []\<rparr>) 1 5) 5)) = 0.08 \<and>
   total_power_loss (get_total_sanction_effects (update_sanction_effects
      (add_sanction_effect (a\<lparr>sanction_effects := []\<rparr>) 1 5) 6)) = 0.04 \<and>
   total_power_loss (get_total_sanction_effects (update_sanction_effects
      (add_sanction_effect (a\<lparr>sanction_effects := []\<rparr>) 1 5) 7)) = 0.02 \<and>
   sanction_effects (update_sanction_effects
      (add_sanction_effect (a\<lparr>sanction_effects := []\<rparr>) 1 5) 8) = [] \<and>
   total_power_loss (get_total_sanction_effects (update_sanction_effects
      (add_sanction_effect (a\<lparr>sanction_effects := []\<rparr>) 1 5) 8)) = 0 \<and>
   map (\<lambda>b. total_power_loss (get_total_sanction_effects b))
     [update_sanction_effects (add_sanction_effect (a\<lparr>sanction_effects := []\<rparr>) 1 5) 5,
      update_sanction_effects (update_sanction_effects
        (add_sanction_effect (a\<lparr>sanction_effects := []\<rparr>) 1 5) 5) 6,
      update_sanction_effects (update_sanction_effects (update_sanction_effects
        (add_sanction_effect (a\<lparr>sanction_effects := []\<rparr>) 1 5) 5) 6) 7,
      update_sanction_effects (update_sanction_effects (update_sanction_effects
        (update_sanction_effects
          (add_sanction_effect (a\<lparr>sanction_effects := []\<rparr>) 1 5) 5) 6) 7) 8]
     = [0.08, 0.04, 0.02, 0]"
  by (simp add: update_sanction_effects_def add_sanction_effect_def update_new_effect
      update_effect_def new_effect_def get_total_sanction_effects_def get_or_zero_def
      power_int_def power2_eq_square)


text \<open>
  C10. A sanction effect that \<^verbatim>\<open>add_sanction_effect\<close> has just appended carries no
  \<^verbatim>\<open>current_power_loss\<close> and no \<^verbatim>\<open>current_wealth_loss\<close>, so both sums of
  \<^verbatim>\<open>get_total_sanction_effects\<close> are what they were before the effect was added:
  until \<^verbatim>\<open>update_sanction_effects\<close> runs, the fresh effect contributes exactly 0.
  The wealth and the power that the next wealth and power update computes for the member
  are therefore the same with and without the fresh effect.
\<close>

theorem fresh_effect_contributes_nothing:
  "current_power_loss (new_effect i r) = None \<and>
   current_wealth_loss (new_effect i r) = None \<and>
   get_total_sanction_effects (add_sanction_effect a i r) = get_total_sanction_effects a \<and>
   wealth (update_agent_wealth_power b r' (add_sanction_effect a i r)) =
     wealth (update_agent_wealth_power b r' a) \<and>
   power_v (update_agent_wealth_power b r' (add_sanction_effect a i r)) =
     power_v (update_agent_wealth_power b r' a)"
  by (simp add: new_effect_def add_sanction_effect_def get_total_sanction_effects_def
      get_or_zero_def update_agent_wealth_power_def update_wealth_def update_power_def
      calculate_power_def update_sanction_effects_def Let_def)

subsection \<open>Ideology change\<close>

text \<open>
  A string that is not an ideology makes the lookup raise once the cooldown has passed;
  the ideology field is then already overwritten.
\<close>

lemma change_ideology_unknown:
  "\<not> r - last_ideology_change a < 3 \<Longrightarrow> ideology_values new = None \<Longrightarrow>
   change_ideology a new r = (a\<lparr>ideology := new\<rparr>, Inl KeyError)"
  by (simp add: change_ideology_def)

text \<open>
  C5. When \<^verbatim>\<open>change_ideology(new, round)\<close> is called with
  \<open>round - last_ideology_change < 3\<close> it returns \<^verbatim>\<open>False\<close> and the member is
  unchanged in every field. Otherwise, for an ideology \<open>new\<close> with numeric value \<open>v\<close>
  (\<open>P\<close>, \<open>F\<close> or \<open>U\<close>), it sets the ideology to \<open>new\<close>, the numeric value to \<open>v\<close> and
  the last-change round to \<open>round\<close>, appends \<open>new\<close> to the ideology history and returns
  \<^verbatim>\<open>True\<close>.
\<close>

theorem change_ideology_cooldown:
  "(r - last_ideology_change a < 3 \<longrightarrow> change_ideology a new r = (a, Inr False)) \<and>
   (\<not> r - last_ideology_change a < 3 \<and> ideology_values new = Some v \<longrightarrow>
      change_ideology a new r =
        (a\<lparr>ideology := new, ideology_value := v, last_ideology_change := r,
           ideology_history := ideology_history a @ [new]\<rparr>, Inr True))"
  by (simp add: change_ideology_def)

theorem change_ideology_cooldown_witness:
  "change_ideology (example_member 0 Female Low 0.2) ''U'' 2 =
     (example_member 0 Female Low 0.2, Inr False) \<and>
   change_ideology (example_member 0 Female Low 0.2) ''U'' 3 =
     ((example_member 0 Female Low 0.2)\<lparr>ideology := ''U'', ideology_value := 0,
        last_ideology_change := 3, ideology_history := [''P'', ''U'']\<rparr>, Inr True)"
  using change_ideology_cooldown [of 2 "example_member 0 Female Low 0.2" "''U''" 0]
    change_ideology_cooldown [of 3 "example_member 0 Female Low 0.2" "''U''" 0]
  by (simp add: example_member_def ideology_values_def)

subsection \<open>Ideology conversion\<close>

text \<open>
  C6, as claimed: a member off cooldown with ideology \<open>P\<close> or \<open>F\<close> and personal
  benefit below \<open>-0.2\<close> leaves the conversion step with its ideology unchanged or \<open>U\<close>,
  whatever the draws. It fails: the member below has ideology \<open>P\<close>, is off cooldown at
  round 10 and has personal benefit \<open>-0.675\<close>; the first draw 0.5 misses the 30% of the
  frustration rule, the code goes on to the dissonance rule, the second draw 0.05 is below
  0.1, and the member leaves with ideology \<open>F\<close> after two draws.
\<close>

theorem frustration_first_match_counterexample:
  "\<not> 10 - last_ideology_change (example_member 4 Male Low 0.05) < 3 \<and>
   ideology (example_member 4 Male Low 0.05) = ''P'' \<and>
   (wealth (example_member 4 Male Low 0.05) - 0.5) +
     (power_v (example_member 4 Male Low 0.05) - 0.5) < - 0.2 \<and>
   map_sum id (\<lambda>(a, k). (ideology a, k))
     (convert_agent half_then_low 10 (example_member 4 Male Low 0.05) 0) = Inr (''F'', 2)"
  by (simp add: convert_agent_def frustration_conversion_def rational_conversion_def
      dissonance_conversion_def switch_ideology_def change_ideology_def ideology_values_def
      example_member_def half_then_low_def)

text \<open>
  C6, amended: for a member off cooldown with ideology \<open>P\<close> or \<open>F\<close> and personal
  benefit below \<open>-0.2\<close> the frustration rule is tried first. If its draw is below 0.3 the
  member switches to \<open>U\<close> and no other rule is tried. If not, the dissonance rule is
  tried with a second draw: below 0.1 the member switches to the opposite of its ideology
  (\<open>P\<close> to \<open>F\<close>, \<open>F\<close> to \<open>P\<close>), otherwise the member is unchanged. So the ideology
  after the step is the old one, \<open>U\<close> or the opposite one.
\<close>

theorem frustration_then_dissonance:
  assumes "\<not> r - last_ideology_change a < 3"
    and "ideology a \<in> {''P'', ''F''}"
    and "(wealth a - 0.5) + (power_v a - 0.5) < - 0.2"
  shows "convert_agent rnd r a k =
     (if rnd k < 0.3 then
        Inr (a\<lparr>ideology := ''U'', ideology_value := 0, last_ideology_change := r,
               ideology_history := ideology_history a @ [''U'']\<rparr>, k + 1)
      else if rnd (k + 1) < 0.1 then
        Inr (a\<lparr>ideology := opposite (ideology a),
               ideology_value := (if ideology a = ''P'' then - 1 else 1),
               last_ideology_change := r,
               ideology_history := ideology_history a @ [opposite (ideology a)]\<rparr>, k + 2)
      else Inr (a, k + 2))"
  using assms
  by (auto simp add: convert_agent_def frustration_conversion_def rational_conversion_def
      dissonance_conversion_def switch_ideology_def change_ideology_def ideology_values_def
      opposite_def Let_def)

theorem frustration_then_dissonance_witness:
  "\<not> 10 - last_ideology_change (example_member 1 Male Middle 0.2) < 3 \<and>
   ideology (example_member 1 Male Middle 0.2) \<in> {''P'', ''F''} \<and>
   (wealth (example_member 1 Male Middle 0.2) - 0.5) +
     (power_v (example_member 1 Male Middle 0.2) - 0.5) < - 0.2 \<and>
   convert_agent (\<lambda>k. 0.2) 10 (example_member 1 Male Middle 0.2) 0 =
     Inr ((example_member 1 Male Middle 0.2)\<lparr>ideology := ''U'', ideology_value := 0,
            last_ideology_change := 10, ideology_history := [''P'', ''U'']\<rparr>, 1)"
  using frustration_then_dissonance [of 10 "example_member 1 Male Middle 0.2" "\<lambda>k. 0.2" 0]
  by (simp add: example_member_def)

subsection \<open>Elite circle\<close>

text \<open>
  C1, as claimed: after a rebuild over \<open>n\<close> members the circle has
  \<open>max(1, \<lceil>n \<times> 0.05\<rceil>)\<close> members. It fails for 50 members: the claim gives 3, the
  code takes \<^verbatim>\<open>max(1, int(50 * 0.05))\<close> = 2.
\<close>

theorem circle_size_ceiling_counterexample:
  "length (core_decision_circle (update_core_decision_circle
      (new_society (map (\<lambda>n. example_member n Female Low 0.2) [0..<50]) (example_config 50))))
   \<noteq> max 1 (nat \<lceil>real 50 * 0.05\<rceil>)"
  by (simp add: update_core_decision_circle_def agents_new_society length_sorted_by_power
      circle_size_div)

text \<open>
  C1, amended: after every rebuild over a population of \<open>n\<close> members the circle is the
  first \<open>max(1, \<lfloor>n \<times> 0.05\<rfloor>)\<close> members (\<open>\<lfloor>n \<times> 0.05\<rfloor>\<close> is \<open>n div 20\<close>) of the
  population sorted by power descending, so it has that many members when the population
  is not empty and none when it is. The sorted list is a rearrangement of the population
  in which no member has less power than a later one.
\<close>

theorem core_circle_rebuild:
  "core_decision_circle (update_core_decision_circle s) =
     take (max 1 (length (agents s) div 20)) (sorted_by_power (agents s)) \<and>
   length (core_decision_circle (update_core_decision_circle s)) =
     min (length (agents s)) (max 1 (length (agents s) div 20)) \<and>
   sorted_wrt (\<lambda>a b. power_v a \<ge> power_v b) (sorted_by_power (agents s)) \<and>
   mset (sorted_by_power (agents s)) = mset (agents s)"
  by (simp add: update_core_decision_circle_def circle_size_div sorted_by_power_desc
      mset_sorted_by_power length_sorted_by_power min.commute)

subsection \<open>Equality index\<close>




subsection \<open>Tax and redistribution\<close>

text \<open>
  C8. With a rate \<open>tax_redistribution \<le> 0\<close> the tax step changes nothing. For any rate,
  whenever the step returns, the total wealth of the population is what it was before:
  what is collected is handed back in equal shares to every member. The step returns
  whenever the average wealth it divides by is not zero.
\<close>

theorem tax_step_conserves_wealth:
  "(tax_redistribution (levers s) \<le> 0 \<longrightarrow> execute_tax_redistribution s = Inr s) \<and>
   (\<forall>s'. execute_tax_redistribution s = Inr s' \<longrightarrow> total_wealth s' = total_wealth s) \<and>
   (average_wealth s \<noteq> 0 \<longrightarrow> (\<exists>s'. execute_tax_redistribution s = Inr s'))"
  using tax_preserves_total[of s] tax_defined[of s]
  by (simp add: execute_tax_redistribution_def)

theorem tax_step_conserves_wealth_witness:
  "tax_redistribution (levers (unequal_society
      \<lparr>levers := (levers unequal_society)\<lparr>tax_redistribution := 0\<rparr>\<rparr>)) \<le> 0 \<and>
   execute_tax_redistribution (unequal_society
      \<lparr>levers := (levers unequal_society)\<lparr>tax_redistribution := 0\<rparr>\<rparr>)
     = Inr (unequal_society\<lparr>levers := (levers unequal_society)\<lparr>tax_redistribution := 0\<rparr>\<rparr>) \<and>
   average_wealth unequal_society \<noteq> 0 \<and>
   (\<exists>s'. execute_tax_redistribution unequal_society = Inr s' \<and>
         total_wealth s' = total_wealth unequal_society)"
  using tax_step_conserves_wealth
      [of "unequal_society\<lparr>levers := (levers unequal_society)\<lparr>tax_redistribution := 0\<rparr>\<rparr>"]
    tax_step_conserves_wealth [of unequal_society]
  by (auto simp add: unequal_average_wealth)

subsection \<open>Wealth floor\<close>

text \<open>
  The floor 0.01 holds where the code sets wealth through \<^verbatim>\<open>update_wealth\<close>, and at
  initialisation, where wealth is clipped to the band of the class.
\<close>

lemma wealth_floor_after_update:
  "0.01 \<le> wealth (update_agent_wealth_power b r a)"
  by (simp add: update_agent_wealth_power_def Let_def update_sanction_effects_def
      update_power_def update_wealth_def)

lemma wealth_floor_at_init:
  "init_agent n gen cls cfg g = Inr (a, g') \<Longrightarrow> 0.05 \<le> wealth a"
  by (cases cls)
    (auto simp: init_agent_def Let_def clip_def split: prod.splits option.splits)

text \<open>
  C2: every member has wealth at least 0.01 after every step of a round. The tax step
  writes \<^verbatim>\<open>agent.wealth\<close> directly. In \<open>unequal_society\<close> every member is at or above
  the bottom of the band of its class; the average wealth is 0.19 and the rate 0.3. The
  high member pays \<open>1 \<times> 0.3 \<times> (1 / 0.19 - 0.5)\<close>, more than it owns, and after its share of
  the redistribution its wealth is \<open>-2623/9500\<close>, below the floor.
\<close>

theorem tax_step_breaks_wealth_floor:
  "list_all (\<lambda>a. 0.01 \<le> wealth a) (agents unequal_society) \<and>
   map_sum id (\<lambda>s'. map wealth (agents s')) (execute_tax_redistribution unequal_society) =
     Inr [- (2623 / 9500), 3037 / 9500, 3037 / 9500, 3037 / 9500, 1927 / 9500,
          1927 / 9500, 1927 / 9500, 1927 / 9500, 1927 / 9500, 1927 / 9500]"
proof -
  have floor_before: "list_all (\<lambda>a. 0.01 \<le> wealth a) unequal_population"
    by (simp add: unequal_population_def example_member_def)
  have collected: "collect_tax 0.19 0.3 unequal_population 0 =
      Inr (map2 (\<lambda>a w. a\<lparr>wealth := w\<rparr>) unequal_population
             [- (163 / 380), 317 / 1900, 317 / 1900, 317 / 1900, 1 / 20, 1 / 20, 1 / 20,
              1 / 20, 1 / 20, 1 / 20], 726 / 475)"
    by (simp add: unequal_population_def example_member_def Let_def)
  have "map_sum id (\<lambda>s'. map wealth (agents s')) (execute_tax_redistribution unequal_society) =
     Inr [- (2623 / 9500), 3037 / 9500, 3037 / 9500, 3037 / 9500, 1927 / 9500,
          1927 / 9500, 1927 / 9500, 1927 / 9500, 1927 / 9500, 1927 / 9500]"
    unfolding execute_tax_redistribution_def Let_def unequal_average_wealth unequal_tax_rate
      unequal_members collected
    by (simp add: unequal_population_def)
  with floor_before unequal_members show ?thesis by simp
qed

subsection \<open>Power\<close>

text \<open>
  C9, as claimed: at every state of a run the power of every member is
  \<open>0.5 \<times> wealth + 0.25 \<times> competition_skill + 0.25 \<times> care_skill\<close>. It fails after the
  attribution-bias step: the first member of \<open>unequal_society\<close> has the power of the
  formula before the step; after it the power is \<open>5397/5750\<close> and the formula gives
  \<open>3/4\<close>.
\<close>

theorem power_formula_counterexample:
  "power_v (hd (agents unequal_society)) = calculate_power (hd (agents unequal_society)) \<and>
   power_v (hd (agents (apply_attribution_bias unequal_society))) = 5397 / 5750 \<and>
   calculate_power (hd (agents (apply_attribution_bias unequal_society))) = 3 / 4"
  unfolding apply_attribution_bias_def unequal_members unequal_bias unequal_average_power
  by (simp add: unequal_population_def example_member_def bias_agent_def calculate_power_def)

text \<open>
  C9, amended: the power of a member is the formula at initialisation and right after
  \<^verbatim>\<open>update_power\<close>; after the wealth and power update of a round it is the formula
  minus the sanction power loss the member had at the start of that update, and not below
  0. (The attribution-bias step multiplies power by its factor, without touching wealth or
  skills.)
\<close>

theorem power_formula_where_recomputed:
  "power_v (update_power a) = calculate_power (update_power a) \<and>
   power_v (update_agent_wealth_power b r a) =
     max 0 (calculate_power (update_agent_wealth_power b r a)
            - total_power_loss (get_total_sanction_effects a)) \<and>
   (\<forall>a' g'. init_agent n gen cls cfg g = Inr (a', g') \<longrightarrow> power_v a' = calculate_power a')"
proof -
  have "power_v (update_power a) = calculate_power (update_power a)"
    by (simp add: update_power_def calculate_power_def Let_def)
  then show ?thesis
    using init_agent_power[of n gen cls cfg g] update_agent_power[of b r a] by blast
qed

theorem power_formula_where_recomputed_witness:
  "(\<exists>a' g'. init_agent 0 Female Low (example_config 2) calm_rng = Inr (a', g') \<and>
      power_v a' = calculate_power a' \<and> power_v a' = 0.35)"
  using power_formula_where_recomputed
    [where n = 0 and gen = Female and cls = Low and cfg = "example_config 2" and g = calm_rng]
  by (simp add: init_agent_def calm_rng_def example_config_def normal_def choice_def clip_def
      ideology_values_def Let_def)

subsection \<open>Reproducibility\<close>

text \<open>
  C3: two runs with the same configuration have the same equality-index trajectory. The
  configuration below has \<open>random_seed = 42\<close> and two members. No function reads the
  seed (\<open>seed_ignored\<close>), and the samples come from the process-wide generators: when
  every normal variate is 0 the first snapshot has equality index 0.7, when every one is
  1 it has 0.75. The first entry of the trajectory already differs.
\<close>

theorem unseeded_runs_differ:
  "random_seed (example_config 2) = 42 \<and>
   initial_equality (example_config 2) calm_rng = Some 0.7 \<and>
   initial_equality (example_config 2) lucky_rng = Some 0.75"
  by code_simp

end
